theory Spec2Isabelle
  imports Main "HOL-Library.AList"
begin

section \<open>The sparse matrix of hw02/matrix.py\<close>

text \<open>
  A \<open>SparseMatrix\<close> object has the attributes \<open>Rows\<close>, \<open>Colu\<close> and \<open>elements\<close>.
  Python integers are unbounded, so they are \<open>int\<close>. The dictionary \<open>elements\<close> maps a
  pair \<open>(row, col)\<close> to a value and iterates in insertion order; it is an association
  list whose keys are distinct. Assigning to a key that is present replaces its value in
  place and assigning to a new key appends it (\<open>AList.update\<close>); \<open>del\<close> removes the key
  (\<open>AList.delete\<close>); \<open>dict.get(key, 0)\<close> is a lookup with default \<open>0\<close>.
\<close>

type_synonym key = "int \<times> int"

type_synonym dict = "(key \<times> int) list"

record SparseMatrix =
  Rows :: int
  Colu :: int
  elements :: dict

text \<open>Every exception the module raises itself is a \<open>ValueError\<close> with a message.\<close>

datatype error = ValueError string

definition FormatError :: error where
  "FormatError = ValueError ''Input file has wrong format''"

definition DimensionMismatchError_add :: error where
  "DimensionMismatchError_add = ValueError ''Matrices dimensions do not match for addition''"

definition DimensionMismatchError_subtract :: error where
  "DimensionMismatchError_subtract = ValueError ''Matrices dimensions do not match for subtraction''"

definition DimensionMismatchError_multiply :: error where
  "DimensionMismatchError_multiply = ValueError ''Matrices dimensions do not match for multiplication''"

definition InvalidOperationError :: error where
  "InvalidOperationError = ValueError ''Invalid operation''"

text \<open>\<open>__init__\<close>: zero rows, zero columns, an empty dictionary.\<close>

definition init :: SparseMatrix where
  "init = \<lparr>Rows = 0, Colu = 0, elements = []\<rparr>"

text \<open>The keys of the dictionary, in iteration order.\<close>

definition keys :: "SparseMatrix \<Rightarrow> key list" where
  "keys self = map fst (elements self)"

definition getElement :: "SparseMatrix \<Rightarrow> int \<Rightarrow> int \<Rightarrow> int" where
  "getElement self currRow currCol =
     (case map_of (elements self) (currRow, currCol) of None \<Rightarrow> 0 | Some v \<Rightarrow> v)"

definition setElement :: "SparseMatrix \<Rightarrow> int \<Rightarrow> int \<Rightarrow> int \<Rightarrow> SparseMatrix" where
  "setElement self currRow currCol val =
     (if val \<noteq> 0 then
        self\<lparr>elements := AList.update (currRow, currCol) val (elements self)\<rparr>
      else if (currRow, currCol) \<in> set (keys self) then
        self\<lparr>elements := AList.delete (currRow, currCol) (elements self)\<rparr>
      else self)"


subsection \<open>Addition and subtraction\<close>

text \<open>
  \<open>all_keys\<close> is a Python set, the union of the two key sets. The order in which the
  \<open>for\<close> loop visits it is fixed by the interpreter's hashing and is no part of the
  program; the model visits it in one fixed order without repetitions, and the loop
  itself, \<open>combine\<close>, takes the order as an argument. Lemma \<open>combine_order\<close> below shows
  that the mapping built does not depend on it.
\<close>

definition all_keys :: "SparseMatrix \<Rightarrow> SparseMatrix \<Rightarrow> key list" where
  "all_keys self other = remdups (keys self @ keys other)"

definition combine ::
  "(int \<Rightarrow> int \<Rightarrow> int) \<Rightarrow> SparseMatrix \<Rightarrow> SparseMatrix \<Rightarrow> key list \<Rightarrow> SparseMatrix \<Rightarrow> SparseMatrix"
where
  "combine f self other ks result =
     fold (\<lambda>key res. setElement res (fst key) (snd key)
             (f (getElement self (fst key) (snd key)) (getElement other (fst key) (snd key))))
          ks result"

definition add :: "SparseMatrix \<Rightarrow> SparseMatrix \<Rightarrow> error + SparseMatrix" where
  "add self other =
     (if Rows self \<noteq> Rows other \<or> Colu self \<noteq> Colu other then Inl DimensionMismatchError_add
      else Inr (combine (+) self other (all_keys self other)
                  (init\<lparr>Rows := Rows self, Colu := Colu self\<rparr>)))"

definition subtract :: "SparseMatrix \<Rightarrow> SparseMatrix \<Rightarrow> error + SparseMatrix" where
  "subtract self other =
     (if Rows self \<noteq> Rows other \<or> Colu self \<noteq> Colu other then Inl DimensionMismatchError_subtract
      else Inr (combine (-) self other (all_keys self other)
                  (init\<lparr>Rows := Rows self, Colu := Colu self\<rparr>)))"

subsection \<open>Multiplication\<close>

text \<open>\<open>range(n)\<close> is \<open>0, 1, ..., n - 1\<close>, and empty when \<open>n \<le> 0\<close>.\<close>

definition range :: "int \<Rightarrow> int list" where
  "range n = [0..n - 1]"

definition accumulate :: "SparseMatrix \<Rightarrow> SparseMatrix \<Rightarrow> key \<Rightarrow> int \<Rightarrow> SparseMatrix \<Rightarrow> SparseMatrix" where
  "accumulate self other ik j result =
     setElement result (fst ik) j
       (getElement result (fst ik) j
          + getElement self (fst ik) (snd ik) * getElement other (snd ik) j)"

definition sweep :: "SparseMatrix \<Rightarrow> SparseMatrix \<Rightarrow> key \<Rightarrow> SparseMatrix \<Rightarrow> SparseMatrix" where
  "sweep self other ik result = fold (accumulate self other ik) (range (Colu other)) result"

definition multiply :: "SparseMatrix \<Rightarrow> SparseMatrix \<Rightarrow> error + SparseMatrix" where
  "multiply self other =
     (if Colu self \<noteq> Rows other then Inl DimensionMismatchError_multiply
      else Inr (fold (sweep self other) (keys self)
                  (init\<lparr>Rows := Rows self, Colu := Colu other\<rparr>)))"

section \<open>Reading a matrix from a file\<close>

subsection \<open>The interpreter's string functions\<close>

text \<open>
  The file is ASCII text. \<open>str.strip()\<close> and the pattern \<open>\s\<close> use the whitespace of
  \<open>str.isspace\<close>, which on ASCII is the characters 9 to 13, 28 to 31 and 32; \<open>int()\<close>
  skips only 9 to 13 and 32 around the number; \<open>\d\<close> is \<open>0\<close> to \<open>9\<close>.
\<close>

definition is_space :: "char \<Rightarrow> bool" where
  "is_space c = (c \<in> set [CHR 0x09, CHR 0x0A, CHR 0x0B, CHR 0x0C, CHR 0x0D,
                            CHR 0x1C, CHR 0x1D, CHR 0x1E, CHR 0x1F, CHR 0x20])"

definition is_int_space :: "char \<Rightarrow> bool" where
  "is_int_space c = (c \<in> set [CHR 0x09, CHR 0x0A, CHR 0x0B, CHR 0x0C, CHR 0x0D, CHR 0x20])"

definition is_digit :: "char \<Rightarrow> bool" where
  "is_digit c = (48 \<le> (of_char c :: nat) \<and> (of_char c :: nat) \<le> 57)"

definition digit_value :: "char \<Rightarrow> nat" where
  "digit_value c = of_char c - 48"

definition strip_with :: "(char \<Rightarrow> bool) \<Rightarrow> string \<Rightarrow> string" where
  "strip_with p s = rev (dropWhile p (rev (dropWhile p s)))"

definition strip :: "string \<Rightarrow> string" where
  "strip s = strip_with is_space s"

text \<open>
  \<open>int(s)\<close> on a string: whitespace around, an optional sign, then decimal digits, where
  a single underscore may stand between two digits. \<open>None\<close> is the \<open>ValueError\<close> it
  raises. The interpreter's configurable limit on the number of digits is left out.
\<close>

fun digits_value :: "nat \<Rightarrow> string \<Rightarrow> nat option" where
  "digits_value acc [] = None"
| "digits_value acc [c] = (if is_digit c then Some (10 * acc + digit_value c) else None)"
| "digits_value acc (c # d # cs) =
     (if \<not> is_digit c then None
      else if d = CHR ''_'' then digits_value (10 * acc + digit_value c) cs
      else digits_value (10 * acc + digit_value c) (d # cs))"

definition py_int :: "string \<Rightarrow> int option" where
  "py_int s =
     (case strip_with is_int_space s of
        [] \<Rightarrow> None
      | c # cs \<Rightarrow>
          if c = CHR ''-'' then map_option (\<lambda>n. - int n) (digits_value 0 cs)
          else if c = CHR ''+'' then map_option int (digits_value 0 cs)
          else map_option int (digits_value 0 (c # cs)))"

text \<open>\<open>str(i)\<close> of an integer, as the f-strings format it: decimal, \<open>-\<close> before a negative.\<close>

fun str_nat :: "nat \<Rightarrow> string" where
  "str_nat n = (if n < 10 then [char_of (48 + n)] else str_nat (n div 10) @ [char_of (48 + n mod 10)])"

declare str_nat.simps [simp del]

definition str_int :: "int \<Rightarrow> string" where
  "str_int i = (if i < 0 then CHR ''-'' # str_nat (nat (- i)) else str_nat (nat i))"

text \<open>\<open>s.split(sep)\<close> for a separator of one character: the pieces between the separators.\<close>

fun split :: "char \<Rightarrow> string \<Rightarrow> string list" where
  "split sep [] = [[]]"
| "split sep (c # cs) =
     (if c = sep then [] # split sep cs
      else (case split sep cs of [] \<Rightarrow> [[c]] | p # ps \<Rightarrow> (c # p) # ps))"

text \<open>\<open>sep.join(xs)\<close>.\<close>

fun join :: "string \<Rightarrow> string list \<Rightarrow> string" where
  "join sep [] = []"
| "join sep [x] = x"
| "join sep (x # y # ys) = x @ sep @ join sep (y # ys)"

text \<open>\<open>xs[i]\<close> for \<open>i \<ge> 0\<close>; \<open>None\<close> is the \<open>IndexError\<close>.\<close>

definition index :: "'a list \<Rightarrow> nat \<Rightarrow> 'a option" where
  "index xs i = (if i < length xs then Some (xs ! i) else None)"

text \<open>
  A file opened in mode \<open>'r'\<close> is read with universal newlines: \<open>\r\n\<close> and a lone \<open>\r\<close>
  arrive as \<open>\n\<close>. \<open>readlines()\<close> cuts the text after every \<open>\n\<close> and keeps the \<open>\n\<close>
  on the line.
\<close>

fun universal_newlines :: "string \<Rightarrow> string" where
  "universal_newlines [] = []"
| "universal_newlines [c] = (if c = CHR 0x0D then [CHR ''\<newline>''] else [c])"
| "universal_newlines (c # d # cs) =
     (if c = CHR 0x0D then
        (if d = CHR ''\<newline>'' then CHR ''\<newline>'' # universal_newlines cs
         else CHR ''\<newline>'' # universal_newlines (d # cs))
      else c # universal_newlines (d # cs))"

fun readlines :: "string \<Rightarrow> string list" where
  "readlines [] = []"
| "readlines (c # cs) =
     (if c = CHR ''\<newline>'' then [c] # readlines cs
      else (case readlines cs of [] \<Rightarrow> [[c]] | l # ls \<Rightarrow> (c # l) # ls))"

subsection \<open>The pattern of an entry line\<close>

text \<open>
  \<open>re.match(r'\((\d+),\s*(\d+),\s*(-?\d+)\)', line)\<close> matches at the start of the line
  and need not reach its end. Each repetition is followed by a character outside its own
  class, so the greedy match without backtracking is the only one; the result is the three
  groups.
\<close>

definition expect :: "char \<Rightarrow> string \<Rightarrow> string option" where
  "expect c s = (case s of [] \<Rightarrow> None | x # xs \<Rightarrow> if x = c then Some xs else None)"

definition digits1 :: "string \<Rightarrow> (string \<times> string) option" where
  "digits1 s =
     (if takeWhile is_digit s = [] then None
      else Some (takeWhile is_digit s, dropWhile is_digit s))"

definition signed_digits1 :: "string \<Rightarrow> (string \<times> string) option" where
  "signed_digits1 s =
     (case s of
        [] \<Rightarrow> None
      | c # cs \<Rightarrow>
          if c = CHR ''-'' then
            (case digits1 cs of None \<Rightarrow> None | Some (g, rest) \<Rightarrow> Some (c # g, rest))
          else digits1 s)"

definition re_match :: "string \<Rightarrow> (string \<times> string \<times> string) option" where
  "re_match line =
     (case expect CHR ''('' line of None \<Rightarrow> None | Some s1 \<Rightarrow>
      case digits1 s1 of None \<Rightarrow> None | Some (g1, s2) \<Rightarrow>
      case expect CHR '','' s2 of None \<Rightarrow> None | Some s3 \<Rightarrow>
      case digits1 (dropWhile is_space s3) of None \<Rightarrow> None | Some (g2, s4) \<Rightarrow>
      case expect CHR '','' s4 of None \<Rightarrow> None | Some s5 \<Rightarrow>
      case signed_digits1 (dropWhile is_space s5) of None \<Rightarrow> None | Some (g3, s6) \<Rightarrow>
      case expect CHR '')'' s6 of None \<Rightarrow> None | Some _ \<Rightarrow> Some (g1, g2, g3))"

subsection \<open>\<open>read_from_file\<close>\<close>

text \<open>
  A method that assigns to \<open>self\<close> returns the new state of \<open>self\<close> next to its outcome,
  also when it raises. The file is \<open>None\<close> when \<open>open\<close> raises, and its content
  otherwise. Whatever is raised inside the \<open>try\<close> leaves as the one \<open>ValueError\<close> of the
  handler.
\<close>

definition header :: "string \<Rightarrow> int option" where
  "header l = (case index (split CHR ''='' l) 1 of None \<Rightarrow> None | Some t \<Rightarrow> py_int t)"

fun read_entries :: "SparseMatrix \<Rightarrow> string list \<Rightarrow> (error + unit) \<times> SparseMatrix" where
  "read_entries self [] = (Inr (), self)"
| "read_entries self (l # ls) =
     (if strip l = [] then read_entries self ls
      else
        (case re_match (strip l) of
           None \<Rightarrow> (Inl FormatError, self)
         | Some (g1, g2, g3) \<Rightarrow>
             (case (py_int g1, py_int g2, py_int g3) of
                (Some row, Some col, Some val) \<Rightarrow> read_entries (setElement self row col val) ls
              | _ \<Rightarrow> (Inl FormatError, self))))"


definition digits :: "string \<Rightarrow> bool" where
  "digits ds = (ds \<noteq> [] \<and> (\<forall>c\<in>set ds. is_digit c))"

definition read_from_file :: "SparseMatrix \<Rightarrow> string option \<Rightarrow> (error + unit) \<times> SparseMatrix" where
  "read_from_file self file =
     (let self0 = self\<lparr>elements := []\<rparr> in
      case file of
        None \<Rightarrow> (Inl FormatError, self0)
      | Some content \<Rightarrow>
          (let lines = readlines (universal_newlines content) in
           case Option.bind (index lines 0) header of
             None \<Rightarrow> (Inl FormatError, self0)
           | Some r \<Rightarrow>
               (case Option.bind (index lines 1) header of
                  None \<Rightarrow> (Inl FormatError, self0\<lparr>Rows := r\<rparr>)
                | Some c \<Rightarrow> read_entries (self0\<lparr>Rows := r, Colu := c\<rparr>) (drop 2 lines))))"

section \<open>Writing the result\<close>

definition entry_line :: "key \<times> int \<Rightarrow> string" where
  "entry_line e =
     ''('' @ str_int (fst (fst e)) @ '', '' @ str_int (snd (fst e)) @ '', '' @ str_int (snd e) @ '')''"

text \<open>\<open>__str__\<close>\<close>

definition str_matrix :: "SparseMatrix \<Rightarrow> string" where
  "str_matrix self = join ''\<newline>'' (map entry_line (elements self))"

text \<open>The three writes at the end of \<open>process_file\<close>.\<close>

definition written :: "SparseMatrix \<Rightarrow> string" where
  "written result =
     (''rows='' @ str_int (Rows result) @ ''\<newline>'')
     @ (''cols='' @ str_int (Colu result) @ ''\<newline>'')
     @ str_matrix result"

text \<open>
  \<open>process_file\<close> returns the text it writes to the output file, or the error that
  leaves it, and the new state of \<open>self\<close>.
\<close>

definition process_file ::
  "SparseMatrix \<Rightarrow> string option \<Rightarrow> string \<Rightarrow> string option \<Rightarrow> (error + string) \<times> SparseMatrix"
where
  "process_file self input_file operation other_matrix_file =
     (case read_from_file self input_file of
        (Inl e, self1) \<Rightarrow> (Inl e, self1)
      | (Inr _, self1) \<Rightarrow>
          (case read_from_file init other_matrix_file of
             (Inl e, _) \<Rightarrow> (Inl e, self1)
           | (Inr _, other_matrix) \<Rightarrow>
               (case (if operation = ''add'' then add self1 other_matrix
                      else if operation = ''subtract'' then subtract self1 other_matrix
                      else if operation = ''multiply'' then multiply self1 other_matrix
                      else Inl InvalidOperationError) of
                  Inl e \<Rightarrow> (Inl e, self1)
                | Inr result \<Rightarrow> (Inr (written result), self1))))"

section \<open>The objects in the store\<close>

text \<open>
  The three operations receive references to two objects, which may be the same object,
  and return a reference to a new one. To say what they leave unchanged, the same methods
  are written once more over a store of objects, a reference being an index into it and
  \<open>SparseMatrix()\<close> appending a new object. Every read and write of the loops goes
  through the store as it is at that moment.
\<close>

type_synonym ref = nat

type_synonym store = "SparseMatrix list"

definition new_SparseMatrix :: "store \<Rightarrow> ref \<times> store" where
  "new_SparseMatrix h = (length h, h @ [init])"

definition st_getElement :: "store \<Rightarrow> ref \<Rightarrow> int \<Rightarrow> int \<Rightarrow> int" where
  "st_getElement h self currRow currCol = getElement (h ! self) currRow currCol"

definition st_setElement :: "store \<Rightarrow> ref \<Rightarrow> int \<Rightarrow> int \<Rightarrow> int \<Rightarrow> store" where
  "st_setElement h self currRow currCol val = h[self := setElement (h ! self) currRow currCol val]"

definition st_result :: "store \<Rightarrow> int \<Rightarrow> int \<Rightarrow> ref \<times> store" where
  "st_result h rows cols =
     (let (result, h1) = new_SparseMatrix h;
          h2 = h1[result := (h1 ! result)\<lparr>Rows := rows\<rparr>];
          h3 = h2[result := (h2 ! result)\<lparr>Colu := cols\<rparr>]
      in (result, h3))"

definition st_combine ::
  "(int \<Rightarrow> int \<Rightarrow> int) \<Rightarrow> ref \<Rightarrow> ref \<Rightarrow> ref \<Rightarrow> key list \<Rightarrow> store \<Rightarrow> store"
where
  "st_combine f self other result ks h =
     fold (\<lambda>key h. st_setElement h result (fst key) (snd key)
             (f (st_getElement h self (fst key) (snd key)) (st_getElement h other (fst key) (snd key))))
          ks h"

definition st_add :: "store \<Rightarrow> ref \<Rightarrow> ref \<Rightarrow> (error + ref) \<times> store" where
  "st_add h self other =
     (if Rows (h ! self) \<noteq> Rows (h ! other) \<or> Colu (h ! self) \<noteq> Colu (h ! other)
      then (Inl DimensionMismatchError_add, h)
      else
        (let (result, h1) = st_result h (Rows (h ! self)) (Colu (h ! self))
         in (Inr result, st_combine (+) self other result (all_keys (h1 ! self) (h1 ! other)) h1)))"

definition st_subtract :: "store \<Rightarrow> ref \<Rightarrow> ref \<Rightarrow> (error + ref) \<times> store" where
  "st_subtract h self other =
     (if Rows (h ! self) \<noteq> Rows (h ! other) \<or> Colu (h ! self) \<noteq> Colu (h ! other)
      then (Inl DimensionMismatchError_subtract, h)
      else
        (let (result, h1) = st_result h (Rows (h ! self)) (Colu (h ! self))
         in (Inr result, st_combine (-) self other result (all_keys (h1 ! self) (h1 ! other)) h1)))"

definition st_accumulate :: "ref \<Rightarrow> ref \<Rightarrow> ref \<Rightarrow> key \<Rightarrow> int \<Rightarrow> store \<Rightarrow> store" where
  "st_accumulate self other result ik j h =
     st_setElement h result (fst ik) j
       (st_getElement h result (fst ik) j
          + st_getElement h self (fst ik) (snd ik) * st_getElement h other (snd ik) j)"

definition st_sweep :: "ref \<Rightarrow> ref \<Rightarrow> ref \<Rightarrow> key \<Rightarrow> store \<Rightarrow> store" where
  "st_sweep self other result ik h =
     fold (st_accumulate self other result ik) (range (Colu (h ! other))) h"

definition st_multiply :: "store \<Rightarrow> ref \<Rightarrow> ref \<Rightarrow> (error + ref) \<times> store" where
  "st_multiply h self other =
     (if Colu (h ! self) \<noteq> Rows (h ! other)
      then (Inl DimensionMismatchError_multiply, h)
      else
        (let (result, h1) = st_result h (Rows (h ! self)) (Colu (h ! other))
         in (Inr result, fold (st_sweep self other result) (keys (h1 ! self)) h1)))"

section \<open>The matrices a program can build\<close>

text \<open>
  The matrices that the constructor, \<open>read_from_file\<close> (whether it returns or raises),
  \<open>setElement\<close> and the three operations produce.
\<close>

inductive reachable :: "SparseMatrix \<Rightarrow> bool" where
  r_init: "reachable init"
| r_read: "reachable M \<Longrightarrow> reachable (snd (read_from_file M file))"
| r_set: "reachable M \<Longrightarrow> reachable (setElement M r c v)"
| r_add: "reachable A \<Longrightarrow> reachable B \<Longrightarrow> add A B = Inr R \<Longrightarrow> reachable R"
| r_subtract: "reachable A \<Longrightarrow> reachable B \<Longrightarrow> subtract A B = Inr R \<Longrightarrow> reachable R"
| r_multiply: "reachable A \<Longrightarrow> reachable B \<Longrightarrow> multiply A B = Inr R \<Longrightarrow> reachable R"

text \<open>No stored value is zero.\<close>

definition nonzero :: "SparseMatrix \<Rightarrow> bool" where
  "nonzero M = (0 \<notin> snd ` set (elements M))"

section \<open>Accessors\<close>

lemma map_of_setElement:
  "map_of (elements (setElement M r c v)) =
     (if v \<noteq> 0 then (map_of (elements M))((r, c) \<mapsto> v) else (map_of (elements M))((r, c) := None))"
proof (cases "v = 0")
  case False
  then show ?thesis by (simp add: setElement_def update_conv')
next
  case True
  show ?thesis
  proof (cases "(r, c) \<in> set (keys M)")
    case True
    with \<open>v = 0\<close> show ?thesis by (simp add: setElement_def delete_conv')
  next
    case False
    then have "map_of (elements M) (r, c) = None"
      by (simp add: keys_def map_of_eq_None_iff)
    with False \<open>v = 0\<close> show ?thesis by (auto simp: setElement_def)
  qed
qed

lemma getElement_setElement:
  "getElement (setElement M r c v) r' c' = (if r' = r \<and> c' = c then v else getElement M r' c')"
  by (simp add: getElement_def map_of_setElement)

lemma Rows_setElement [simp]: "Rows (setElement M r c v) = Rows M"
  by (simp add: setElement_def)

lemma Colu_setElement [simp]: "Colu (setElement M r c v) = Colu M"
  by (simp add: setElement_def)

lemma distinct_setElement:
  "distinct (keys M) \<Longrightarrow> distinct (keys (setElement M r c v))"
  by (simp add: setElement_def keys_def distinct_update distinct_delete)

section \<open>The loop of addition and subtraction\<close>


lemma map_of_combine:
  "map_of (elements (combine f A B ks R)) key =
     (if key \<in> set ks then
        (if f (getElement A (fst key) (snd key)) (getElement B (fst key) (snd key)) \<noteq> 0
         then Some (f (getElement A (fst key) (snd key)) (getElement B (fst key) (snd key))) else None)
      else map_of (elements R) key)"
proof (induction ks arbitrary: R)
  case Nil
  show ?case by (simp add: combine_def)
next
  case (Cons k ks)
  have step: "combine f A B (k # ks) R =
      combine f A B ks (setElement R (fst k) (snd k)
         (f (getElement A (fst k) (snd k)) (getElement B (fst k) (snd k))))"
    by (simp add: combine_def)
  show ?case
    unfolding step Cons.IH
    by (cases key; cases k) (auto simp: map_of_setElement)
qed

lemma Rows_combine [simp]: "Rows (combine f A B ks R) = Rows R"
  by (induction ks arbitrary: R) (simp_all add: combine_def)

lemma Colu_combine [simp]: "Colu (combine f A B ks R) = Colu R"
  by (induction ks arbitrary: R) (simp_all add: combine_def)

lemma distinct_combine: "distinct (keys R) \<Longrightarrow> distinct (keys (combine f A B ks R))"
  by (induction ks arbitrary: R) (simp_all add: combine_def distinct_setElement)

lemma set_all_keys [simp]: "set (all_keys A B) = set (keys A) \<union> set (keys B)"
  by (simp add: all_keys_def)

lemma getElement_absent: "(r, c) \<notin> set (keys M) \<Longrightarrow> getElement M r c = 0"
proof -
  assume "(r, c) \<notin> set (keys M)"
  then have "map_of (elements M) (r, c) = None"
    by (simp add: keys_def map_of_eq_None_iff)
  then show ?thesis by (simp add: getElement_def)
qed

lemma getElement_combine:
  "set ks = set (keys A) \<union> set (keys B) \<Longrightarrow> f 0 0 = 0 \<Longrightarrow>
   getElement (combine f A B ks (init\<lparr>Rows := m, Colu := n\<rparr>)) r c = f (getElement A r c) (getElement B r c)"
  by (auto simp: getElement_def[of "combine f A B ks _"] map_of_combine init_def getElement_absent)


section \<open>The loops of multiplication\<close>







lemma Rows_fold_sweep [simp]: "Rows (fold (sweep A B) ks R) = Rows R"
proof -
  have a: "\<And>js R. Rows (fold (accumulate A B ik) js R) = Rows R" for ik
    subgoal for js R by (induction js arbitrary: R) (simp_all add: accumulate_def) done
  show ?thesis by (induction ks arbitrary: R) (simp_all add: sweep_def a)
qed

lemma Colu_fold_sweep [simp]: "Colu (fold (sweep A B) ks R) = Colu R"
proof -
  have a: "\<And>js R. Colu (fold (accumulate A B ik) js R) = Colu R" for ik
    subgoal for js R by (induction js arbitrary: R) (simp_all add: accumulate_def) done
  show ?thesis by (induction ks arbitrary: R) (simp_all add: sweep_def a)
qed


lemma nonzero_setElement:
  "nonzero M \<Longrightarrow> nonzero (setElement M r c v)"
proof -
  assume "nonzero M"
  then have a: "0 \<notin> snd ` set (elements M)" by (simp add: nonzero_def)
  have u: "set (AList.update k v xs) \<subseteq> insert (k, v) (set xs)" for k :: key and v :: int and xs
    by (induction xs) auto
  have dl: "set (AList.delete k xs) \<subseteq> set xs" for k :: key and xs :: dict
    by (auto simp: AList.delete_eq)
  show ?thesis
    using a u[of "(r, c)" v "elements M"] dl[of "(r, c)" "elements M"]
    by (auto simp: setElement_def nonzero_def)
qed


section \<open>What the loops keep\<close>


lemma combine_order:
  "set ks = set ks' \<Longrightarrow>
   map_of (elements (combine f A B ks R)) = map_of (elements (combine f A B ks' R))"
  by (rule ext) (simp add: map_of_combine)

lemma nonzero_combine: "nonzero R \<Longrightarrow> nonzero (combine f A B ks R)"
  by (induction ks arbitrary: R) (simp_all add: combine_def nonzero_setElement)

lemma nonzero_init: "nonzero (init\<lparr>Rows := m, Colu := n\<rparr>)"
  by (simp add: nonzero_def init_def)

lemma distinct_init: "distinct (keys (init\<lparr>Rows := m, Colu := n\<rparr>))"
  by (simp add: keys_def init_def)

lemma nonzero_fold_sweep: "nonzero R \<Longrightarrow> nonzero (fold (sweep A B) ks R)"
proof -
  have a: "nonzero R \<Longrightarrow> nonzero (fold (accumulate A B ik) js R)" for ik js R
    by (induction js arbitrary: R) (simp_all add: accumulate_def nonzero_setElement)
  show "nonzero R \<Longrightarrow> nonzero (fold (sweep A B) ks R)"
    by (induction ks arbitrary: R) (simp_all add: sweep_def a)
qed

lemma distinct_fold_sweep: "distinct (keys R) \<Longrightarrow> distinct (keys (fold (sweep A B) ks R))"
proof -
  have a: "distinct (keys R) \<Longrightarrow> distinct (keys (fold (accumulate A B ik) js R))" for ik js R
    by (induction js arbitrary: R) (simp_all add: accumulate_def distinct_setElement)
  show "distinct (keys R) \<Longrightarrow> distinct (keys (fold (sweep A B) ks R))"
    by (induction ks arbitrary: R) (simp_all add: sweep_def a)
qed

lemma add_Inr:
  "Rows A = Rows B \<Longrightarrow> Colu A = Colu B \<Longrightarrow>
   add A B = Inr (combine (+) A B (all_keys A B) (init\<lparr>Rows := Rows A, Colu := Colu A\<rparr>))"
  by (simp add: add_def)

lemma subtract_Inr:
  "Rows A = Rows B \<Longrightarrow> Colu A = Colu B \<Longrightarrow>
   subtract A B = Inr (combine (-) A B (all_keys A B) (init\<lparr>Rows := Rows A, Colu := Colu A\<rparr>))"
  by (simp add: subtract_def)

section \<open>Addition\<close>

text \<open>
  C1: when the two matrices have the same \<open>Rows\<close> and the same \<open>Colu\<close>, \<open>add\<close> returns a
  matrix with these dimensions; at every coordinate occupied in one of the operands its
  entry is the sum of the two \<open>getElement\<close>s, with no stored entry where that sum is zero,
  and a coordinate occupied in neither operand has no entry.
\<close>

theorem add_entries:
  assumes "Rows A = Rows B" and "Colu A = Colu B"
  shows "\<exists>R. add A B = Inr R \<and> Rows R = Rows A \<and> Colu R = Colu A \<and> distinct (keys R) \<and>
           (\<forall>r c. map_of (elements R) (r, c) =
              (if ((r, c) \<in> set (keys A) \<or> (r, c) \<in> set (keys B))
                  \<and> getElement A r c + getElement B r c \<noteq> 0
               then Some (getElement A r c + getElement B r c) else None))"
proof -
  let ?R = "combine (+) A B (all_keys A B) (init\<lparr>Rows := Rows A, Colu := Colu A\<rparr>)"
  have "add A B = Inr ?R" using assms by (rule add_Inr)
  moreover have "distinct (keys ?R)" by (simp add: distinct_combine distinct_init)
  moreover have "map_of (elements ?R) (r, c) =
      (if ((r, c) \<in> set (keys A) \<or> (r, c) \<in> set (keys B))
            \<and> getElement A r c + getElement B r c \<noteq> 0
       then Some (getElement A r c + getElement B r c) else None)" for r c
    by (simp add: map_of_combine init_def)
  ultimately show ?thesis by simp
qed

theorem add_entries_witness:
  "\<exists>R. add \<lparr>Rows = 2, Colu = 2, elements = [((0, 0), 1), ((1, 1), 2)]\<rparr>
             \<lparr>Rows = 2, Colu = 2, elements = [((0, 0), - 1), ((0, 1), 4)]\<rparr> = Inr R
       \<and> Rows R = 2 \<and> Colu R = 2
       \<and> map_of (elements R) (0, 0) = None
       \<and> map_of (elements R) (0, 1) = Some 4
       \<and> map_of (elements R) (1, 1) = Some 2
       \<and> map_of (elements R) (1, 0) = None"
  using add_entries [of "\<lparr>Rows = 2, Colu = 2, elements = [((0, 0), 1), ((1, 1), 2)]\<rparr>"
                        "\<lparr>Rows = 2, Colu = 2, elements = [((0, 0), - 1), ((0, 1), 4)]\<rparr>"]
  by (auto simp: keys_def getElement_def)


text \<open>
  C7: for matrices of equal dimensions, subtracting \<open>B\<close> from \<open>add A B\<close> gives a matrix
  with the dimensions of \<open>A\<close> and the entry of \<open>A\<close> at every coordinate, and \<open>add A B\<close> and
  \<open>add B A\<close> have the same dimensions and the same entry at every coordinate.
\<close>

theorem add_then_subtract:
  assumes "Rows A = Rows B" and "Colu A = Colu B"
  shows "\<exists>S T U. add A B = Inr S \<and> subtract S B = Inr T \<and> add B A = Inr U
           \<and> Rows T = Rows A \<and> Colu T = Colu A
           \<and> (\<forall>r c. getElement T r c = getElement A r c)
           \<and> Rows S = Rows U \<and> Colu S = Colu U
           \<and> (\<forall>r c. getElement S r c = getElement U r c)"
proof -
  let ?S = "combine (+) A B (all_keys A B) (init\<lparr>Rows := Rows A, Colu := Colu A\<rparr>)"
  let ?T = "combine (-) ?S B (all_keys ?S B) (init\<lparr>Rows := Rows ?S, Colu := Colu ?S\<rparr>)"
  let ?U = "combine (+) B A (all_keys B A) (init\<lparr>Rows := Rows B, Colu := Colu B\<rparr>)"
  have S: "add A B = Inr ?S" using assms by (rule add_Inr)
  have T: "subtract ?S B = Inr ?T" using assms by (intro subtract_Inr) simp_all
  have U: "add B A = Inr ?U" using assms by (intro add_Inr) simp_all
  have gS: "getElement ?S r c = getElement A r c + getElement B r c" for r c
    by (rule getElement_combine) simp_all
  have gT: "getElement (combine (-) ?S B (all_keys ?S B) (init\<lparr>Rows := m, Colu := n\<rparr>)) r c
      = getElement ?S r c - getElement B r c" for r c m n
    by (rule getElement_combine) simp_all
  have gU: "getElement ?U r c = getElement B r c + getElement A r c" for r c
    by (rule getElement_combine) simp_all
  have 1: "\<forall>r c. getElement ?T r c = getElement A r c" by (simp add: gT gS)
  have 2: "\<forall>r c. getElement ?S r c = getElement ?U r c" by (simp add: gS gU)
  have 3: "Rows ?T = Rows A \<and> Colu ?T = Colu A \<and> Rows ?S = Rows ?U \<and> Colu ?S = Colu ?U"
    using assms by (simp add: init_def)
  from S T U 1 2 3 show ?thesis by blast
qed

theorem add_then_subtract_witness:
  "\<exists>S T U. add \<lparr>Rows = 2, Colu = 2, elements = [((0, 0), 1), ((1, 1), 2)]\<rparr>
               \<lparr>Rows = 2, Colu = 2, elements = [((0, 0), - 1), ((0, 1), 4)]\<rparr> = Inr S
      \<and> subtract S \<lparr>Rows = 2, Colu = 2, elements = [((0, 0), - 1), ((0, 1), 4)]\<rparr> = Inr T
      \<and> add \<lparr>Rows = 2, Colu = 2, elements = [((0, 0), - 1), ((0, 1), 4)]\<rparr>
             \<lparr>Rows = 2, Colu = 2, elements = [((0, 0), 1), ((1, 1), 2)]\<rparr> = Inr U
      \<and> getElement T 0 0 = 1 \<and> getElement T 0 1 = 0 \<and> getElement T 1 1 = 2
      \<and> getElement S 0 1 = getElement U 0 1"
  using add_then_subtract [of "\<lparr>Rows = 2, Colu = 2, elements = [((0, 0), 1), ((1, 1), 2)]\<rparr>"
                              "\<lparr>Rows = 2, Colu = 2, elements = [((0, 0), - 1), ((0, 1), 4)]\<rparr>"]
  by (auto simp: getElement_def)

section \<open>Dimension checks\<close>

text \<open>
  C4: \<open>add\<close> and \<open>subtract\<close> raise their dimension error exactly when the row counts or the
  column counts differ, \<open>multiply\<close> raises its dimension error exactly when the column count
  of the left operand differs from the row count of the right one, and each returns a
  matrix otherwise.
\<close>

theorem dimension_errors:
  "(add A B = Inl DimensionMismatchError_add) = (Rows A \<noteq> Rows B \<or> Colu A \<noteq> Colu B)
   \<and> ((\<exists>R. add A B = Inr R) = (Rows A = Rows B \<and> Colu A = Colu B))
   \<and> (subtract A B = Inl DimensionMismatchError_subtract) = (Rows A \<noteq> Rows B \<or> Colu A \<noteq> Colu B)
   \<and> ((\<exists>R. subtract A B = Inr R) = (Rows A = Rows B \<and> Colu A = Colu B))
   \<and> (multiply A B = Inl DimensionMismatchError_multiply) = (Colu A \<noteq> Rows B)
   \<and> ((\<exists>R. multiply A B = Inr R) = (Colu A = Rows B))"
  by (simp add: add_def subtract_def multiply_def)

theorem dimension_errors_witness:
  "add \<lparr>Rows = 2, Colu = 3, elements = [((0, 0), 1)]\<rparr> \<lparr>Rows = 3, Colu = 2, elements = []\<rparr>
     = Inl (ValueError ''Matrices dimensions do not match for addition'')
   \<and> subtract \<lparr>Rows = 2, Colu = 3, elements = [((0, 0), 1)]\<rparr> \<lparr>Rows = 3, Colu = 2, elements = []\<rparr>
     = Inl (ValueError ''Matrices dimensions do not match for subtraction'')
   \<and> (\<exists>R. multiply \<lparr>Rows = 2, Colu = 3, elements = [((0, 0), 1)]\<rparr> \<lparr>Rows = 3, Colu = 2, elements = []\<rparr> = Inr R)
   \<and> multiply \<lparr>Rows = 3, Colu = 2, elements = []\<rparr> \<lparr>Rows = 3, Colu = 2, elements = []\<rparr>
     = Inl (ValueError ''Matrices dimensions do not match for multiplication'')
   \<and> (\<exists>R. add \<lparr>Rows = 3, Colu = 2, elements = []\<rparr> \<lparr>Rows = 3, Colu = 2, elements = []\<rparr> = Inr R)
   \<and> (\<exists>R. subtract \<lparr>Rows = 3, Colu = 2, elements = []\<rparr> \<lparr>Rows = 3, Colu = 2, elements = []\<rparr> = Inr R)"
  using dimension_errors [of "\<lparr>Rows = 2, Colu = 3, elements = [((0, 0), 1)]\<rparr>" "\<lparr>Rows = 3, Colu = 2, elements = []\<rparr>"]
    dimension_errors [of "\<lparr>Rows = 3, Colu = 2, elements = []\<rparr>" "\<lparr>Rows = 3, Colu = 2, elements = []\<rparr>"]
  by (simp add: DimensionMismatchError_add_def DimensionMismatchError_subtract_def
        DimensionMismatchError_multiply_def)

section \<open>Multiplication\<close>




section \<open>The scenario of the specification\<close>

text \<open>
  C3, as stated, gives the product the entries \<open>(0,0,3)\<close>, \<open>(0,1,4)\<close>, \<open>(1,1,8)\<close>. Row \<open>1\<close>
  of the right operand is empty, so the product has no entry in row \<open>1\<close>.
\<close>

theorem scenario_counterexample:
  "read_from_file init (Some ''rows=2\<newline>cols=2\<newline>(0,0,1)\<newline>(1,1,2)'')
     = (Inr (), \<lparr>Rows = 2, Colu = 2, elements = [((0, 0), 1), ((1, 1), 2)]\<rparr>)
   \<and> read_from_file init (Some ''rows=2\<newline>cols=2\<newline>(0,0,3)\<newline>(0,1,4)'')
     = (Inr (), \<lparr>Rows = 2, Colu = 2, elements = [((0, 0), 3), ((0, 1), 4)]\<rparr>)
   \<and> multiply \<lparr>Rows = 2, Colu = 2, elements = [((0, 0), 1), ((1, 1), 2)]\<rparr>
               \<lparr>Rows = 2, Colu = 2, elements = [((0, 0), 3), ((0, 1), 4)]\<rparr>
     = Inr \<lparr>Rows = 2, Colu = 2, elements = [((0, 0), 3), ((0, 1), 4)]\<rparr>
   \<and> set [((0, 0), 3), ((0, 1), 4)] \<noteq> {((0 :: int, 0 :: int), 3 :: int), ((0, 1), 4), ((1, 1), 8)}"
proof -
  have "((1 :: int, 1 :: int), 8 :: int) \<notin> set [((0, 0), 3), ((0, 1), 4)]" by simp
  then have "set [((0, 0), 3), ((0, 1), 4)] \<noteq> {((0 :: int, 0 :: int), 3 :: int), ((0, 1), 4), ((1, 1), 8)}"
    by blast
  moreover have "read_from_file init (Some ''rows=2\<newline>cols=2\<newline>(0,0,1)\<newline>(1,1,2)'')
     = (Inr (), \<lparr>Rows = 2, Colu = 2, elements = [((0, 0), 1), ((1, 1), 2)]\<rparr>)" by code_simp
  moreover have "read_from_file init (Some ''rows=2\<newline>cols=2\<newline>(0,0,3)\<newline>(0,1,4)'')
     = (Inr (), \<lparr>Rows = 2, Colu = 2, elements = [((0, 0), 3), ((0, 1), 4)]\<rparr>)" by code_simp
  moreover have "multiply \<lparr>Rows = 2, Colu = 2, elements = [((0, 0), 1), ((1, 1), 2)]\<rparr>
               \<lparr>Rows = 2, Colu = 2, elements = [((0, 0), 3), ((0, 1), 4)]\<rparr>
     = Inr \<lparr>Rows = 2, Colu = 2, elements = [((0, 0), 3), ((0, 1), 4)]\<rparr>" by code_simp
  ultimately show ?thesis by blast
qed

text \<open>
  C3, amended: for the two texts of the scenario, the sum has exactly the entries
  \<open>(0,0,4)\<close>, \<open>(0,1,4)\<close>, \<open>(1,1,2)\<close> and the product has exactly the entries \<open>(0,0,3)\<close>,
  \<open>(0,1,4)\<close>.
\<close>

theorem scenario:
  "read_from_file init (Some ''rows=2\<newline>cols=2\<newline>(0,0,1)\<newline>(1,1,2)'')
     = (Inr (), \<lparr>Rows = 2, Colu = 2, elements = [((0, 0), 1), ((1, 1), 2)]\<rparr>)
   \<and> read_from_file init (Some ''rows=2\<newline>cols=2\<newline>(0,0,3)\<newline>(0,1,4)'')
     = (Inr (), \<lparr>Rows = 2, Colu = 2, elements = [((0, 0), 3), ((0, 1), 4)]\<rparr>)
   \<and> (\<exists>S. add \<lparr>Rows = 2, Colu = 2, elements = [((0, 0), 1), ((1, 1), 2)]\<rparr>
               \<lparr>Rows = 2, Colu = 2, elements = [((0, 0), 3), ((0, 1), 4)]\<rparr> = Inr S
          \<and> distinct (keys S)
          \<and> set (elements S) = {((0, 0), 4), ((0, 1), 4), ((1, 1), 2)})
   \<and> (\<exists>P. multiply \<lparr>Rows = 2, Colu = 2, elements = [((0, 0), 1), ((1, 1), 2)]\<rparr>
                    \<lparr>Rows = 2, Colu = 2, elements = [((0, 0), 3), ((0, 1), 4)]\<rparr> = Inr P
          \<and> distinct (keys P)
          \<and> set (elements P) = {((0, 0), 3), ((0, 1), 4)})"
proof -
  have a: "read_from_file init (Some ''rows=2\<newline>cols=2\<newline>(0,0,1)\<newline>(1,1,2)'')
     = (Inr (), \<lparr>Rows = 2, Colu = 2, elements = [((0, 0), 1), ((1, 1), 2)]\<rparr>)" by code_simp
  have b: "read_from_file init (Some ''rows=2\<newline>cols=2\<newline>(0,0,3)\<newline>(0,1,4)'')
     = (Inr (), \<lparr>Rows = 2, Colu = 2, elements = [((0, 0), 3), ((0, 1), 4)]\<rparr>)" by code_simp
  have c: "add \<lparr>Rows = 2, Colu = 2, elements = [((0, 0), 1), ((1, 1), 2)]\<rparr>
               \<lparr>Rows = 2, Colu = 2, elements = [((0, 0), 3), ((0, 1), 4)]\<rparr>
     = Inr \<lparr>Rows = 2, Colu = 2, elements = [((1, 1), 2), ((0, 0), 4), ((0, 1), 4)]\<rparr>" by code_simp
  have d: "multiply \<lparr>Rows = 2, Colu = 2, elements = [((0, 0), 1), ((1, 1), 2)]\<rparr>
               \<lparr>Rows = 2, Colu = 2, elements = [((0, 0), 3), ((0, 1), 4)]\<rparr>
     = Inr \<lparr>Rows = 2, Colu = 2, elements = [((0, 0), 3), ((0, 1), 4)]\<rparr>" by code_simp
  show ?thesis unfolding a b c d by (auto simp: keys_def)
qed

theorem scenario_witness:
  "(\<exists>S. add \<lparr>Rows = 2, Colu = 2, elements = [((0, 0), 1), ((1, 1), 2)]\<rparr>
             \<lparr>Rows = 2, Colu = 2, elements = [((0, 0), 3), ((0, 1), 4)]\<rparr> = Inr S
        \<and> set (elements S) = {((0, 0), 4), ((0, 1), 4), ((1, 1), 2)})
   \<and> (\<exists>P. multiply \<lparr>Rows = 2, Colu = 2, elements = [((0, 0), 1), ((1, 1), 2)]\<rparr>
                  \<lparr>Rows = 2, Colu = 2, elements = [((0, 0), 3), ((0, 1), 4)]\<rparr> = Inr P
        \<and> set (elements P) = {((0, 0), 3), ((0, 1), 4)})"
  using scenario by blast

section \<open>What the parser accepts\<close>



lemma digit_not_underscore: "is_digit c \<Longrightarrow> c \<noteq> CHR ''_''"
  by (auto simp: is_digit_def)

lemma digit_not_sign: "is_digit c \<Longrightarrow> c \<noteq> CHR ''-'' \<and> c \<noteq> CHR ''+''"
  by (auto simp: is_digit_def)

lemma digit_not_int_space: "is_digit c \<Longrightarrow> \<not> is_int_space c"
  by (auto simp: is_digit_def is_int_space_def)

lemma digits_value_foldl:
  "ds \<noteq> [] \<Longrightarrow> \<forall>c\<in>set ds. is_digit c \<Longrightarrow>
   digits_value acc ds = Some (foldl (\<lambda>a c. 10 * a + digit_value c) acc ds)"
proof (induction acc ds rule: digits_value.induct)
  case (1 acc)
  then show ?case by simp
next
  case (2 acc c)
  then show ?case by simp
next
  case (3 acc c d cs)
  from "3.prems" have c: "is_digit c" and d: "is_digit d" by simp_all
  from d have nd: "d \<noteq> CHR ''_''" by (rule digit_not_underscore)
  have "digits_value (10 * acc + digit_value c) (d # cs)
      = Some (foldl (\<lambda>a c. 10 * a + digit_value c) (10 * acc + digit_value c) (d # cs))"
    using "3.IH"(2) c nd "3.prems" by simp
  then show ?case using c nd by simp
qed

lemma strip_with_id:
  assumes "s \<noteq> []" and "\<not> p (hd s)" and "\<not> p (last s)"
  shows "strip_with p s = s"
proof -
  have 1: "dropWhile p s = s" using assms(2) by (simp add: dropWhile_eq_self_iff)
  have "hd (rev s) = last s" using assms(1) by (simp add: hd_rev)
  then have 2: "dropWhile p (rev s) = rev s" using assms(3) by (simp add: dropWhile_eq_self_iff)
  show ?thesis by (simp add: strip_with_def 1 2)
qed

lemma py_int_digits:
  assumes "digits ds"
  shows "py_int ds = Some (int (foldl (\<lambda>a c. 10 * a + digit_value c) 0 ds))"
proof -
  from assms obtain c cs where ds: "ds = c # cs" by (cases ds) (auto simp: digits_def)
  from assms have all: "\<forall>c\<in>set ds. is_digit c" and ne: "ds \<noteq> []" by (simp_all add: digits_def)
  have "is_digit (hd ds)" and "is_digit (last ds)" using all ne by simp_all
  then have s: "strip_with is_int_space ds = ds"
    using ne by (intro strip_with_id) (simp_all add: digit_not_int_space)
  have c: "is_digit c" using all ds by simp
  show ?thesis
    unfolding py_int_def s
    using digit_not_sign[OF c] digits_value_foldl[OF ne all, of 0] by (simp add: ds)
qed

lemma py_int_minus_digits:
  assumes "digits ds"
  shows "py_int (CHR ''-'' # ds) = Some (- int (foldl (\<lambda>a c. 10 * a + digit_value c) 0 ds))"
proof -
  from assms have all: "\<forall>c\<in>set ds. is_digit c" and ne: "ds \<noteq> []" by (simp_all add: digits_def)
  have "is_digit (last ds)" using all ne by simp
  then have "\<not> is_int_space (last (CHR ''-'' # ds))" using ne by (simp add: digit_not_int_space)
  moreover have "\<not> is_int_space (hd (CHR ''-'' # ds))" by (simp add: is_int_space_def)
  ultimately have s: "strip_with is_int_space (CHR ''-'' # ds) = CHR ''-'' # ds"
    by (intro strip_with_id) simp_all
  show ?thesis
    unfolding py_int_def s using digits_value_foldl[OF ne all, of 0] by simp
qed

lemma digits1_Some: "digits1 s = Some (g, r) \<Longrightarrow> digits g"
  by (auto simp: digits1_def digits_def split: if_splits dest: set_takeWhileD)

lemma signed_digits1_Some:
  "signed_digits1 s = Some (g, r) \<Longrightarrow> digits g \<or> (\<exists>ds. g = CHR ''-'' # ds \<and> digits ds)"
  by (auto simp: signed_digits1_def split: list.splits if_splits option.splits dest: digits1_Some)

lemma re_match_Some:
  assumes "re_match s = Some (g1, g2, g3)"
  shows "digits g1 \<and> digits g2 \<and> (digits g3 \<or> (\<exists>ds. g3 = CHR ''-'' # ds \<and> digits ds))"
  using assms
  by (auto simp: re_match_def split: option.splits; blast dest: digits1_Some signed_digits1_Some)

lemma re_match_ints:
  assumes "re_match s = Some (g1, g2, g3)"
  shows "\<exists>row col val. py_int g1 = Some row \<and> py_int g2 = Some col \<and> py_int g3 = Some val"
  using re_match_Some[OF assms] by (auto simp: py_int_digits py_int_minus_digits)



lemma read_entries_keeps:
  "Rows (snd (read_entries M ls)) = Rows M \<and> Colu (snd (read_entries M ls)) = Colu M
   \<and> (nonzero M \<longrightarrow> nonzero (snd (read_entries M ls)))
   \<and> (distinct (keys M) \<longrightarrow> distinct (keys (snd (read_entries M ls))))"
proof (induction ls arbitrary: M)
  case Nil
  show ?case by simp
next
  case (Cons l ls)
  show ?case
  proof (cases "strip l = []")
    case True
    then show ?thesis using Cons.IH[of M] by simp
  next
    case False
    show ?thesis
    proof (cases "re_match (strip l)")
      case None
      with False show ?thesis by simp
    next
      case (Some g)
      obtain g1 g2 g3 where g: "g = (g1, g2, g3)" by (cases g)
      from re_match_ints[OF Some[unfolded g]] obtain row col val
        where i: "py_int g1 = Some row" "py_int g2 = Some col" "py_int g3 = Some val" by blast
      show ?thesis
        using False Some g i Cons.IH[of "setElement M row col val"]
        by (simp add: nonzero_setElement distinct_setElement)
    qed
  qed
qed






lemma read_from_file_keeps:
  "nonzero (snd (read_from_file M file)) \<and> distinct (keys (snd (read_from_file M file)))"
proof -
  have e: "nonzero (M\<lparr>elements := []\<rparr>)" "nonzero (M\<lparr>elements := [], Rows := r\<rparr>)"
    "nonzero (M\<lparr>elements := [], Rows := r, Colu := c\<rparr>)" for r c
    by (simp_all add: nonzero_def)
  have d: "distinct (keys (M\<lparr>elements := []\<rparr>))" "distinct (keys (M\<lparr>elements := [], Rows := r\<rparr>))"
    "distinct (keys (M\<lparr>elements := [], Rows := r, Colu := c\<rparr>))" for r c
    by (simp_all add: keys_def)
  show ?thesis
    using e d read_entries_keeps
    by (auto simp: read_from_file_def Let_def split: option.splits)
qed

lemma key_removed: "(r, c) \<notin> set (keys (setElement M r c 0))"
  using delete_notin_dom[of "(r, c)" "elements M"]
  by (auto simp: setElement_def keys_def)

lemma reachable_keeps: "reachable M \<Longrightarrow> nonzero M \<and> distinct (keys M)"
proof (induction rule: reachable.induct)
  case r_init
  show ?case by (simp add: init_def nonzero_def keys_def)
next
  case (r_read M f)
  show ?case by (rule read_from_file_keeps)
next
  case (r_set M r c v)
  then show ?case by (simp add: nonzero_setElement distinct_setElement)
next
  case (r_add A B R)
  from r_add.hyps(3) have "R = combine (+) A B (all_keys A B) (init\<lparr>Rows := Rows A, Colu := Colu A\<rparr>)"
    by (simp add: add_def split: if_splits)
  then show ?case by (simp add: nonzero_combine distinct_combine nonzero_init distinct_init)
next
  case (r_subtract A B R)
  from r_subtract.hyps(3) have "R = combine (-) A B (all_keys A B) (init\<lparr>Rows := Rows A, Colu := Colu A\<rparr>)"
    by (simp add: subtract_def split: if_splits)
  then show ?case by (simp add: nonzero_combine distinct_combine nonzero_init distinct_init)
next
  case (r_multiply A B R)
  from r_multiply.hyps(3) have "R = fold (sweep A B) (keys A) (init\<lparr>Rows := Rows A, Colu := Colu B\<rparr>)"
    by (simp add: multiply_def split: if_splits)
  then show ?case by (simp add: nonzero_fold_sweep distinct_fold_sweep nonzero_init distinct_init)
qed

section \<open>Format errors\<close>






section \<open>No stored zero\<close>

text \<open>
  C8: a matrix built by the constructor, \<open>read_from_file\<close>, \<open>setElement\<close>, \<open>add\<close>,
  \<open>subtract\<close> and \<open>multiply\<close> stores no zero and no key twice; setting a coordinate to
  zero leaves no entry there, and setting any value keeps the stored values non-zero.
\<close>

theorem reachable_nonzero:
  assumes "reachable M"
  shows "nonzero M \<and> distinct (keys M)
         \<and> (\<forall>key v. (key, v) \<in> set (elements M) \<longrightarrow> v \<noteq> 0)
         \<and> (r, c) \<notin> set (keys (setElement M r c 0))
         \<and> getElement (setElement M r c 0) r c = 0
         \<and> nonzero (setElement M r c v)"
proof -
  from reachable_keeps[OF assms] have n: "nonzero M" and d: "distinct (keys M)" by simp_all
  from n have "\<forall>key v. (key, v) \<in> set (elements M) \<longrightarrow> v \<noteq> 0"
    by (force simp: nonzero_def)
  then show ?thesis
    using n d by (simp add: key_removed getElement_setElement nonzero_setElement)
qed

theorem reachable_nonzero_witness:
  "reachable (setElement init 1 2 3)
   \<and> elements (setElement init 1 2 3) = [((1, 2), 3)]
   \<and> nonzero (setElement init 1 2 3)
   \<and> (1, 2) \<notin> set (keys (setElement (setElement init 1 2 3) 1 2 0))"
proof -
  have r: "reachable (setElement init 1 2 3)" by (rule r_set[OF r_init])
  have e: "elements (setElement init 1 2 3) = [((1, 2), 3)]" by (simp add: setElement_def init_def)
  show ?thesis using r e reachable_nonzero[OF r, of 1 2 0] by simp
qed

section \<open>The operations in the store\<close>


lemma st_result_eq: "st_result h m n = (length h, h @ [init\<lparr>Rows := m, Colu := n\<rparr>])"
  by (simp add: st_result_def new_SparseMatrix_def)

lemma st_combine_eq:
  assumes "result < length h" and "self \<noteq> result" and "other \<noteq> result"
  shows "st_combine f self other result ks h = h[result := combine f (h ! self) (h ! other) ks (h ! result)]"
  using assms(1)
proof (induction ks arbitrary: h)
  case Nil
  show ?case by (simp add: st_combine_def combine_def)
next
  case (Cons k ks)
  let ?v = "f (getElement (h ! self) (fst k) (snd k)) (getElement (h ! other) (fst k) (snd k))"
  let ?h = "h[result := setElement (h ! result) (fst k) (snd k) ?v]"
  have len: "result < length ?h" using Cons.prems by simp
  have "st_combine f self other result (k # ks) h = st_combine f self other result ks ?h"
    by (simp add: st_combine_def st_setElement_def st_getElement_def)
  also have "\<dots> = ?h[result := combine f (?h ! self) (?h ! other) ks (?h ! result)]"
    by (rule Cons.IH[OF len])
  also have "\<dots> = h[result := combine f (h ! self) (h ! other) (k # ks) (h ! result)]"
    using assms(2,3) Cons.prems by (simp add: combine_def)
  finally show ?case .
qed

lemma st_accumulate_fold:
  assumes "result < length h" and "self \<noteq> result" and "other \<noteq> result"
  shows "fold (st_accumulate self other result ik) js h
           = h[result := fold (accumulate (h ! self) (h ! other) ik) js (h ! result)]"
  using assms(1)
proof (induction js arbitrary: h)
  case Nil
  show ?case by simp
next
  case (Cons j js)
  let ?h = "h[result := accumulate (h ! self) (h ! other) ik j (h ! result)]"
  have len: "result < length ?h" using Cons.prems by simp
  have "fold (st_accumulate self other result ik) (j # js) h
      = fold (st_accumulate self other result ik) js ?h"
    by (simp add: st_accumulate_def accumulate_def st_setElement_def st_getElement_def)
  also have "\<dots> = ?h[result := fold (accumulate (?h ! self) (?h ! other) ik) js (?h ! result)]"
    by (rule Cons.IH[OF len])
  also have "\<dots> = h[result := fold (accumulate (h ! self) (h ! other) ik) (j # js) (h ! result)]"
    using assms(2,3) Cons.prems by simp
  finally show ?case .
qed

lemma st_sweep_fold:
  assumes "result < length h" and "self \<noteq> result" and "other \<noteq> result"
  shows "fold (st_sweep self other result) ks h
           = h[result := fold (sweep (h ! self) (h ! other)) ks (h ! result)]"
  using assms(1)
proof (induction ks arbitrary: h)
  case Nil
  show ?case by simp
next
  case (Cons k ks)
  let ?h = "h[result := sweep (h ! self) (h ! other) k (h ! result)]"
  have len: "result < length ?h" using Cons.prems by simp
  have "st_sweep self other result k h = ?h"
    by (simp add: st_sweep_def sweep_def st_accumulate_fold[OF Cons.prems assms(2,3)])
  then have "fold (st_sweep self other result) (k # ks) h = fold (st_sweep self other result) ks ?h"
    by simp
  also have "\<dots> = ?h[result := fold (sweep (?h ! self) (?h ! other)) ks (?h ! result)]"
    by (rule Cons.IH[OF len])
  also have "\<dots> = h[result := fold (sweep (h ! self) (h ! other)) (k # ks) (h ! result)]"
    using assms(2,3) Cons.prems by simp
  finally show ?case .
qed

lemma st_combine_new:
  assumes "self < length h" and "other < length h"
  shows "st_combine f self other (length h) (all_keys ((h @ [X]) ! self) ((h @ [X]) ! other)) (h @ [X])
           = h @ [combine f (h ! self) (h ! other) (all_keys (h ! self) (h ! other)) X]"
proof -
  have r: "length h < length (h @ [X])" by simp
  have ne: "self \<noteq> length h" "other \<noteq> length h" using assms by simp_all
  have s: "(h @ [X]) ! self = h ! self" "(h @ [X]) ! other = h ! other"
    using assms by (simp_all add: nth_append)
  show ?thesis by (simp add: st_combine_eq[OF r ne] s)
qed

lemma st_sweep_new:
  assumes "self < length h" and "other < length h"
  shows "fold (st_sweep self other (length h)) (keys ((h @ [X]) ! self)) (h @ [X])
           = h @ [fold (sweep (h ! self) (h ! other)) (keys (h ! self)) X]"
proof -
  have r: "length h < length (h @ [X])" by simp
  have ne: "self \<noteq> length h" "other \<noteq> length h" using assms by simp_all
  have s: "(h @ [X]) ! self = h ! self" "(h @ [X]) ! other = h ! other"
    using assms by (simp_all add: nth_append)
  show ?thesis by (simp add: st_sweep_fold[OF r ne] s)
qed

lemma st_add_eq:
  assumes "self < length h" and "other < length h"
    and "Rows (h ! self) = Rows (h ! other)" and "Colu (h ! self) = Colu (h ! other)"
  shows "\<exists>R. add (h ! self) (h ! other) = Inr R \<and> st_add h self other = (Inr (length h), h @ [R])"
  using assms(3,4)
  by (simp add: add_def st_add_def st_result_eq st_combine_new[OF assms(1,2)])

lemma st_subtract_eq:
  assumes "self < length h" and "other < length h"
    and "Rows (h ! self) = Rows (h ! other)" and "Colu (h ! self) = Colu (h ! other)"
  shows "\<exists>R. subtract (h ! self) (h ! other) = Inr R \<and> st_subtract h self other = (Inr (length h), h @ [R])"
  using assms(3,4)
  by (simp add: subtract_def st_subtract_def st_result_eq st_combine_new[OF assms(1,2)])

lemma st_multiply_eq:
  assumes "self < length h" and "other < length h"
    and "Colu (h ! self) = Rows (h ! other)"
  shows "\<exists>R. multiply (h ! self) (h ! other) = Inr R \<and> st_multiply h self other = (Inr (length h), h @ [R])"
  using assms(3)
  by (simp add: multiply_def st_multiply_def st_result_eq st_sweep_new[OF assms(1,2)])

text \<open>
  C9: for two references into the store, equal or not, to matrices of compatible
  dimensions, each of \<open>add\<close>, \<open>subtract\<close> and \<open>multiply\<close> returns a reference that was not in
  the store before and leaves the store as it was with one new object appended: every
  object it held, the operands among them, has the \<open>Rows\<close>, \<open>Colu\<close> and \<open>elements\<close> it had.
  The new object is the matrix the operation computes from the two operands.
\<close>

theorem operands_unchanged:
  assumes "self < length h" and "other < length h"
  shows "(Rows (h ! self) = Rows (h ! other) \<and> Colu (h ! self) = Colu (h ! other) \<longrightarrow>
            (\<exists>R. add (h ! self) (h ! other) = Inr R
                \<and> st_add h self other = (Inr (length h), h @ [R]))
          \<and> (\<exists>R. subtract (h ! self) (h ! other) = Inr R
                \<and> st_subtract h self other = (Inr (length h), h @ [R])))
       \<and> (Colu (h ! self) = Rows (h ! other) \<longrightarrow>
            (\<exists>R. multiply (h ! self) (h ! other) = Inr R
                \<and> st_multiply h self other = (Inr (length h), h @ [R])))"
  using st_add_eq[OF assms] st_subtract_eq[OF assms] st_multiply_eq[OF assms] by blast

theorem operands_unchanged_witness:
  "st_add [\<lparr>Rows = 2, Colu = 2, elements = [((0, 0), 1), ((1, 1), 2)]\<rparr>] 0 0
     = (Inr 1, [\<lparr>Rows = 2, Colu = 2, elements = [((0, 0), 1), ((1, 1), 2)]\<rparr>,
                \<lparr>Rows = 2, Colu = 2, elements = [((0, 0), 2), ((1, 1), 4)]\<rparr>])
   \<and> st_subtract [\<lparr>Rows = 2, Colu = 2, elements = [((0, 0), 1), ((1, 1), 2)]\<rparr>] 0 0
     = (Inr 1, [\<lparr>Rows = 2, Colu = 2, elements = [((0, 0), 1), ((1, 1), 2)]\<rparr>,
                \<lparr>Rows = 2, Colu = 2, elements = []\<rparr>])
   \<and> st_multiply [\<lparr>Rows = 2, Colu = 2, elements = [((0, 0), 1), ((1, 1), 2)]\<rparr>] 0 0
     = (Inr 1, [\<lparr>Rows = 2, Colu = 2, elements = [((0, 0), 1), ((1, 1), 2)]\<rparr>,
                \<lparr>Rows = 2, Colu = 2, elements = [((0, 0), 1), ((1, 1), 4)]\<rparr>])"
proof -
  have a: "add \<lparr>Rows = 2, Colu = 2, elements = [((0, 0), 1), ((1, 1), 2)]\<rparr>
               \<lparr>Rows = 2, Colu = 2, elements = [((0, 0), 1), ((1, 1), 2)]\<rparr>
      = Inr \<lparr>Rows = 2, Colu = 2, elements = [((0, 0), 2), ((1, 1), 4)]\<rparr>" by code_simp
  have b: "subtract \<lparr>Rows = 2, Colu = 2, elements = [((0, 0), 1), ((1, 1), 2)]\<rparr>
               \<lparr>Rows = 2, Colu = 2, elements = [((0, 0), 1), ((1, 1), 2)]\<rparr>
      = Inr \<lparr>Rows = 2, Colu = 2, elements = []\<rparr>" by code_simp
  have c: "multiply \<lparr>Rows = 2, Colu = 2, elements = [((0, 0), 1), ((1, 1), 2)]\<rparr>
               \<lparr>Rows = 2, Colu = 2, elements = [((0, 0), 1), ((1, 1), 2)]\<rparr>
      = Inr \<lparr>Rows = 2, Colu = 2, elements = [((0, 0), 1), ((1, 1), 4)]\<rparr>" by code_simp
  show ?thesis
    using operands_unchanged [of 0 "[\<lparr>Rows = 2, Colu = 2, elements = [((0, 0), 1), ((1, 1), 2)]\<rparr>]" 0]
    by (simp add: a b c)
qed


section \<open>Printing and reading back\<close>































text \<open>What \<open>process_file\<close> writes is \<open>written\<close> of the result of the operation.\<close>

lemma process_file_writes:
  assumes "read_from_file self a = (Inr (), A)" and "read_from_file init b = (Inr (), B)"
  shows "add A B = Inr R \<Longrightarrow> process_file self a ''add'' b = (Inr (written R), A)"
    and "subtract A B = Inr R \<Longrightarrow> process_file self a ''subtract'' b = (Inr (written R), A)"
    and "multiply A B = Inr R \<Longrightarrow> process_file self a ''multiply'' b = (Inr (written R), A)"
    and "operation \<notin> {''add'', ''subtract'', ''multiply''} \<Longrightarrow>
         process_file self a operation b = (Inl InvalidOperationError, A)"
  using assms by (simp_all add: process_file_def)





end
